theory Spec2Isabelle
  imports Complex_Main "HOL-Library.Product_Lexorder"
begin

section \<open>Values, records and data frames\<close>

text \<open>
  The transformation module works on pandas data frames built from lists of Python
  dictionaries. A cell is one value of a frame: a missing number (\<open>NaN\<close>, also standing
  for Python's \<open>None\<close>, which pandas treats alike), a missing timestamp (\<open>NaT\<close>), a number,
  a string, a boolean, a parsed timestamp (day ordinal, hour of the day, remainder within
  the hour) or a calendar date (day ordinal). Numbers are real numbers: the rounding of
  64-bit floats is not modelled, and Python's \<open>int\<close> and \<open>float\<close> are both \<open>Num\<close>.
\<close>

datatype cell = NaN | NaT | Num real | Str string | Flag bool | Stamp int nat nat | Day int

datatype error = KeyError | ValueError | TypeError | ZeroDivisionError

text \<open>A Python dictionary with string keys, in insertion order.\<close>

type_synonym pyrecord = "(string \<times> cell) list"

text \<open>
  A data frame has its column labels, in order, and its rows; a row gives the cell of
  every column (its value at a label that is not a column is never read).
\<close>

type_synonym row = "string \<Rightarrow> cell"

record frame =
  columns :: "string list"
  rows :: "row list"

fun isna :: "cell \<Rightarrow> bool" where
  "isna NaN = True"
| "isna NaT = True"
| "isna _ = False"

text \<open>\<open>pd.DataFrame(records)\<close>: the columns are the keys in order of first appearance;
  a record without a key has \<open>NaN\<close> in that column.\<close>

fun add_keys :: "string list \<Rightarrow> string list \<Rightarrow> string list" where
  "add_keys acc [] = acc"
| "add_keys acc (k # ks) = add_keys (if k \<in> set acc then acc else acc @ [k]) ks"

definition row_of :: "pyrecord \<Rightarrow> row" where
  "row_of d = (\<lambda>c. case map_of d c of None \<Rightarrow> NaN | Some v \<Rightarrow> v)"

definition DataFrame :: "pyrecord list \<Rightarrow> frame" where
  "DataFrame ds = \<lparr>columns = fold (\<lambda>d acc. add_keys acc (map fst d)) ds [],
                   rows = map row_of ds\<rparr>"

text \<open>\<open>df.to_dict(orient='records')\<close>\<close>

definition to_dict :: "frame \<Rightarrow> pyrecord list" where
  "to_dict df = map (\<lambda>r. map (\<lambda>c. (c, r c)) (columns df)) (rows df)"

text \<open>\<open>df.empty\<close>: no rows or no columns.\<close>

definition empty_frame :: "frame \<Rightarrow> bool" where
  "empty_frame df = (rows df = [] \<or> columns df = [])"

text \<open>\<open>df[name]\<close> raises \<open>KeyError\<close> for a label that is not a column.\<close>

definition get_column :: "frame \<Rightarrow> string \<Rightarrow> error + cell list" where
  "get_column df name =
     (if name \<in> set (columns df) then Inr (map (\<lambda>r. r name) (rows df)) else Inl KeyError)"

text \<open>\<open>df[name] = values\<close>: an existing column is replaced in place, a new one is
  appended. Every assignment of the module has one value per row.\<close>

definition set_column :: "string \<Rightarrow> cell list \<Rightarrow> frame \<Rightarrow> frame" where
  "set_column name vals df =
     \<lparr>columns = (if name \<in> set (columns df) then columns df else columns df @ [name]),
      rows = map (\<lambda>(r, v). r(name := v)) (zip (rows df) vals)\<rparr>"

text \<open>\<open>df[name] = scalar\<close>\<close>

definition set_scalar :: "string \<Rightarrow> cell \<Rightarrow> frame \<Rightarrow> frame" where
  "set_scalar name v df = set_column name (replicate (length (rows df)) v) df"

section \<open>Numeric columns\<close>

text \<open>
  A column of numbers and \<open>NaN\<close> is a float column; a numeric reduction over any other
  column (strings, objects) raises.
\<close>

fun numeric_cell :: "cell \<Rightarrow> error + real option" where
  "numeric_cell (Num x) = Inr (Some x)"
| "numeric_cell NaN = Inr None"
| "numeric_cell _ = Inl TypeError"

fun numeric :: "cell list \<Rightarrow> error + real option list" where
  "numeric [] = Inr []"
| "numeric (c # cs) =
     (case numeric_cell c of
        Inl e \<Rightarrow> Inl e
      | Inr x \<Rightarrow> (case numeric cs of Inl e \<Rightarrow> Inl e | Inr xs \<Rightarrow> Inr (x # xs)))"

text \<open>The float of a cell of a numeric column.\<close>

fun num_of :: "cell \<Rightarrow> real option" where
  "num_of (Num x) = Some x"
| "num_of _ = None"

text \<open>The values that are present.\<close>

fun present :: "real option list \<Rightarrow> real list" where
  "present [] = []"
| "present (None # xs) = present xs"
| "present (Some x # xs) = x # present xs"

text \<open>\<open>Series.mean()\<close> skips \<open>NaN\<close> and is \<open>NaN\<close> when nothing is left.\<close>

definition nanmean :: "real option list \<Rightarrow> cell" where
  "nanmean xs =
     (if present xs = [] then NaN
      else Num (sum_list (present xs) / real (length (present xs))))"

text \<open>\<open>rolling(window=3, min_periods=1).mean()\<close>: row \<open>i\<close> sees rows \<open>i - 2\<close> to
  \<open>i\<close>, as far as they exist.\<close>

definition window3 :: "'a list \<Rightarrow> nat \<Rightarrow> 'a list" where
  "window3 xs i = drop (i - 2) (take (Suc i) xs)"

definition rolling_mean3 :: "real option list \<Rightarrow> cell list" where
  "rolling_mean3 xs = map (\<lambda>i. nanmean (window3 xs i)) [0..<length xs]"

text \<open>Python's \<open>/\<close> on an \<open>int\<close> and a length.\<close>

definition py_div :: "int \<Rightarrow> nat \<Rightarrow> error + real" where
  "py_div a n = (if n = 0 then Inl ZeroDivisionError else Inr (real_of_int a / real n))"

section \<open>The environment\<close>

text \<open>
  What the module takes from outside: the clock (\<open>datetime.now()\<close>, formatted as a date
  and in ISO format), the timestamp parser of \<open>pd.to_datetime(..., errors='coerce')\<close>
  (the column is its context, \<open>None\<close> is a value that does not parse) and the day name
  of \<open>pd.to_datetime(...).dt.day_name()\<close> (\<open>None\<close> is a value the conversion raises on).
\<close>

record env =
  today :: string
  now_iso :: string
  parse_ts :: "cell list \<Rightarrow> cell \<Rightarrow> (int \<times> nat \<times> nat) option"
  day_name :: "cell list \<Rightarrow> cell \<Rightarrow> cell option"

section \<open>clean_dataset\<close>

text \<open>Line 30, \<open>df.dropna(subset=[...], inplace=True)\<close>: the rows with a missing cell in
  one of the columns are removed from the frame itself; a label that is not a column
  raises \<open>KeyError\<close>.\<close>

definition dropna :: "string list \<Rightarrow> frame \<Rightarrow> error + frame" where
  "dropna subs df =
     (if list_all (\<lambda>c. c \<in> set (columns df)) subs
      then Inr (df\<lparr>rows := filter (\<lambda>r. list_all (\<lambda>c. \<not> isna (r c)) subs) (rows df)\<rparr>)
      else Inl KeyError)"

text \<open>Line 33, \<open>pd.to_datetime(column, errors='coerce')\<close>: a value that does not parse
  becomes \<open>NaT\<close>.\<close>

definition to_datetime :: "env \<Rightarrow> cell list \<Rightarrow> cell list" where
  "to_datetime E col =
     map (\<lambda>c. case parse_ts E col c of None \<Rightarrow> NaT | Some (d, h, r) \<Rightarrow> Stamp d h r) col"

text \<open>\<open>.dt.date\<close> and \<open>.dt.hour\<close> of a timestamp cell, as grouping keys (a row whose
  key is missing belongs to no group).\<close>

fun dt_date :: "cell \<Rightarrow> int option" where
  "dt_date (Stamp d h r) = Some d"
| "dt_date _ = None"

fun dt_hour :: "cell \<Rightarrow> nat option" where
  "dt_hour (Stamp d h r) = Some h"
| "dt_hour _ = None"

definition date_key :: "row \<Rightarrow> int option" where
  "date_key r = dt_date (r ''timestamp'')"

definition date_hour_key :: "row \<Rightarrow> (int \<times> nat) option" where
  "date_hour_key r =
     (case (dt_date (r ''timestamp''), dt_hour (r ''timestamp'')) of
        (Some d, Some h) \<Rightarrow> Some (d, h)
      | _ \<Rightarrow> None)"

text \<open>\<open>groupby\<close>: one group for each key that occurs, in ascending order of the keys.\<close>

fun keys_of :: "(row \<Rightarrow> 'k option) \<Rightarrow> row list \<Rightarrow> 'k list" where
  "keys_of key [] = []"
| "keys_of key (r # rs) = (case key r of None \<Rightarrow> keys_of key rs | Some k \<Rightarrow> k # keys_of key rs)"

definition groupby :: "(row \<Rightarrow> 'k::linorder option) \<Rightarrow> row list \<Rightarrow> ('k \<times> row list) list" where
  "groupby key rs =
     map (\<lambda>k. (k, filter (\<lambda>r. key r = Some k) rs)) (sort (remdups (keys_of key rs)))"

text \<open>The aggregations of lines 42-45 and 56-58. All but \<open>nunique\<close> work on the values
  that are present; \<open>std\<close> is the sample standard deviation, \<open>NaN\<close> below two values.\<close>

datatype how = Mean | Sum | Count | Min | Max | Std | Nunique

fun how_name :: "how \<Rightarrow> string" where
  "how_name Mean = ''mean''"
| "how_name Sum = ''sum''"
| "how_name Count = ''count''"
| "how_name Min = ''min''"
| "how_name Max = ''max''"
| "how_name Std = ''std''"
| "how_name Nunique = ''nunique''"

fun extremum :: "(real \<Rightarrow> real \<Rightarrow> real) \<Rightarrow> real list \<Rightarrow> cell" where
  "extremum f [] = NaN"
| "extremum f (x # xs) = Num (fold f xs x)"

definition nanstd :: "real list \<Rightarrow> cell" where
  "nanstd xs =
     (if length xs < 2 then NaN
      else (let m = sum_list xs / real (length xs) in
            Num (sqrt (sum_list (map (\<lambda>x. (x - m)\<^sup>2) xs) / (real (length xs) - 1)))))"

fun aggregate :: "how \<Rightarrow> cell list \<Rightarrow> cell" where
  "aggregate Mean cs = nanmean (map num_of cs)"
| "aggregate Sum cs = Num (sum_list (present (map num_of cs)))"
| "aggregate Count cs = Num (real (length (present (map num_of cs))))"
| "aggregate Min cs = extremum min (present (map num_of cs))"
| "aggregate Max cs = extremum max (present (map num_of cs))"
| "aggregate Std cs = nanstd (present (map num_of cs))"
| "aggregate Nunique cs = Num (real (length (remdups (filter (\<lambda>c. \<not> isna c) cs))))"

text \<open>
  The result of \<open>groupby(...).agg(...)\<close>: the index (its level names and, for each row, its
  key cells) and the aggregated columns, labelled by pairs of a column and an aggregation.
  A level is named after the series it groups by.
\<close>

record grouped =
  index_names :: "string list"
  index :: "cell list list"
  labels :: "(string \<times> how) list"
  body :: "row list"

definition agg_row :: "(string \<times> how) list \<Rightarrow> row list \<Rightarrow> row" where
  "agg_row spec grp =
     row_of (map (\<lambda>(c, h). (c @ ''_'' @ how_name h, aggregate h (map (\<lambda>r. r c) grp))) spec)"

text \<open>A column of the specification that the frame does not have raises \<open>KeyError\<close>; a
  numeric aggregation of a column that is not numeric raises \<open>TypeError\<close>.\<close>

fun agg_check :: "frame \<Rightarrow> (string \<times> how) list \<Rightarrow> error option" where
  "agg_check df [] = None"
| "agg_check df ((c, h) # spec) =
     (if c \<notin> set (columns df) then Some KeyError
      else if h = Nunique then agg_check df spec
      else (case numeric (map (\<lambda>r. r c) (rows df)) of
              Inl e \<Rightarrow> Some e
            | Inr xs \<Rightarrow> agg_check df spec))"

definition groupby_agg ::
  "string list \<Rightarrow> (row \<Rightarrow> 'k::linorder option) \<Rightarrow> ('k \<Rightarrow> cell list) \<Rightarrow>
   (string \<times> how) list \<Rightarrow> frame \<Rightarrow> error + grouped" where
  "groupby_agg names key cells spec df =
     (case agg_check df spec of
        Some e \<Rightarrow> Inl e
      | None \<Rightarrow>
         (let groups = groupby key (rows df) in
          Inr \<lparr>index_names = names, index = map (\<lambda>(k, grp). cells k) groups,
               labels = spec, body = map (\<lambda>(k, grp). agg_row spec grp) groups\<rparr>))"

text \<open>Lines 48 and 61: the column labels are joined with an underscore.\<close>

definition flatten :: "grouped \<Rightarrow> string list" where
  "flatten g = map (\<lambda>(c, h). c @ ''_'' @ how_name h) (labels g)"

text \<open>
  Lines 49 and 62, \<open>reset_index()\<close>: every index level becomes a column in front, named
  after the level, the last level first. Inserting a column whose label the frame
  already has raises \<open>ValueError\<close> (cannot insert, already exists).
\<close>

definition insert_column :: "string \<Rightarrow> cell list \<Rightarrow> frame \<Rightarrow> error + frame" where
  "insert_column name vals df =
     (if name \<in> set (columns df) then Inl ValueError
      else Inr \<lparr>columns = name # columns df,
                rows = map (\<lambda>(r, v). r(name := v)) (zip (rows df) vals)\<rparr>)"

fun insert_levels :: "(string \<times> cell list) list \<Rightarrow> frame \<Rightarrow> error + frame" where
  "insert_levels [] df = Inr df"
| "insert_levels ((name, vals) # ls) df =
     (case insert_column name vals df of
        Inl e \<Rightarrow> Inl e
      | Inr df' \<Rightarrow> insert_levels ls df')"

definition reset_index :: "grouped \<Rightarrow> error + frame" where
  "reset_index g =
     insert_levels
       (rev (map (\<lambda>j. (index_names g ! j, map (\<lambda>key. key ! j) (index g)))
               [0..<length (index_names g)]))
       \<lparr>columns = flatten g, rows = body g\<rparr>"

text \<open>Lines 50 and 63, \<open>rename(columns={...})\<close>: a label that is not a column is ignored.\<close>

definition rename_columns :: "(string \<times> string) list \<Rightarrow> frame \<Rightarrow> frame" where
  "rename_columns m df =
     (let new = (\<lambda>c. case map_of m c of None \<Rightarrow> c | Some c' \<Rightarrow> c') in
      \<lparr>columns = map new (columns df),
       rows = map (\<lambda>r c'. case find (\<lambda>c. new c = c') (columns df) of
                              None \<Rightarrow> r c' | Some c \<Rightarrow> r c) (rows df)\<rparr>)"

text \<open>
  Lines 33-39: the timestamps are parsed in the caller's frame, which line 30 has already
  changed; the rows whose timestamp parsed are selected into a new frame, and that one
  gets the processing date.
\<close>

definition parse_timestamps :: "env \<Rightarrow> frame \<Rightarrow> frame" where
  "parse_timestamps E df =
     set_column ''timestamp'' (to_datetime E (map (\<lambda>r. r ''timestamp'') (rows df))) df"

definition valid_rows :: "env \<Rightarrow> frame \<Rightarrow> frame" where
  "valid_rows E df =
     set_scalar ''processed_date'' (Str (today E))
       (df\<lparr>rows := filter (\<lambda>r. \<not> isna (r ''timestamp'')) (rows df)\<rparr>)"

text \<open>Lines 42-50: the daily aggregation. Both grouping series are taken from the column
  \<open>timestamp\<close> and carry its name.\<close>

definition daily_spec :: "(string \<times> how) list" where
  "daily_spec = [(''value'', Mean), (''value'', Sum), (''value'', Count), (''value'', Min),
     (''value'', Max), (''value'', Std), (''id'', Nunique)]"

definition daily_aggregation :: "frame \<Rightarrow> error + frame" where
  "daily_aggregation df =
     (case groupby_agg [''timestamp''] date_key (\<lambda>d. [Day d]) daily_spec df of
        Inl e \<Rightarrow> Inl e
      | Inr g \<Rightarrow>
         (case reset_index g of
            Inl e \<Rightarrow> Inl e
          | Inr daily_data \<Rightarrow> Inr (rename_columns [(''index'', ''date'')] daily_data)))"

text \<open>Lines 53-63: the hourly aggregation.\<close>

definition hourly_spec :: "(string \<times> how) list" where
  "hourly_spec = [(''value'', Mean), (''value'', Sum), (''value'', Count)]"

definition hourly_aggregation :: "frame \<Rightarrow> error + frame" where
  "hourly_aggregation df =
     (case groupby_agg [''timestamp'', ''timestamp''] date_hour_key
             (\<lambda>(d, h). [Day d, Num (real h)]) hourly_spec df of
        Inl e \<Rightarrow> Inl e
      | Inr g \<Rightarrow>
         (case reset_index g of
            Inl e \<Rightarrow> Inl e
          | Inr hourly_data \<Rightarrow>
              Inr (rename_columns [(''level_0'', ''date''), (''level_1'', ''hour'')] hourly_data)))"

text \<open>
  \<open>clean_dataset\<close> returns the frame of the caller as the call leaves it, and either the
  exception raised or the daily records, the hourly records and the number of valid rows.
\<close>

definition clean_dataset ::
  "env \<Rightarrow> frame \<Rightarrow> frame \<times> (error + pyrecord list \<times> pyrecord list \<times> nat)" where
  "clean_dataset E df0 =
     (case dropna [''id'', ''timestamp''] df0 of
        Inl e \<Rightarrow> (df0, Inl e)
      | Inr df1 \<Rightarrow>
         (let df2 = parse_timestamps E df1;
              df = valid_rows E df2
          in (df2,
              case daily_aggregation df of
                Inl e \<Rightarrow> Inl e
              | Inr daily_data \<Rightarrow>
                 (case hourly_aggregation df of
                    Inl e \<Rightarrow> Inl e
                  | Inr hourly_data \<Rightarrow>
                      Inr (to_dict daily_data, to_dict hourly_data, length (rows df))))))"

section \<open>enrich_dataset\<close>

text \<open>Lines 97-98: the moving average, once there are three rows.\<close>

definition add_moving_average :: "frame \<Rightarrow> error + frame" where
  "add_moving_average df =
     (if length (rows df) \<ge> 3 then
        (case get_column df ''value_mean'' of
           Inl e \<Rightarrow> Inl e
         | Inr col \<Rightarrow>
            (case numeric col of
               Inl e \<Rightarrow> Inl e
             | Inr xs \<Rightarrow> Inr (set_column ''value_mean_3day_ma'' (rolling_mean3 xs) df)))
      else Inr df)"

text \<open>Lines 101-102: the day of the week, when there is a \<open>date\<close> column.\<close>

fun all_some :: "'a option list \<Rightarrow> 'a list option" where
  "all_some [] = Some []"
| "all_some (None # xs) = None"
| "all_some (Some x # xs) = (case all_some xs of None \<Rightarrow> None | Some ys \<Rightarrow> Some (x # ys))"

definition add_day_of_week :: "env \<Rightarrow> frame \<Rightarrow> error + frame" where
  "add_day_of_week E df =
     (if ''date'' \<in> set (columns df) then
        (let col = map (\<lambda>r. r ''date'') (rows df) in
         case all_some (map (day_name E col) col) of
           None \<Rightarrow> Inl ValueError
         | Some names \<Rightarrow> Inr (set_column ''day_of_week'' names df))
      else Inr df)"

text \<open>Lines 105-108: the outlier flag; a comparison with \<open>NaN\<close> is false.\<close>

fun exceeds :: "real option \<Rightarrow> cell \<Rightarrow> cell \<Rightarrow> bool" where
  "exceeds (Some x) (Num m) (Num s) = (\<bar>x - m\<bar> > 3 * s)"
| "exceeds _ _ _ = False"

definition add_outlier_flag :: "frame \<Rightarrow> error + frame" where
  "add_outlier_flag df =
     (if ''value_mean'' \<in> set (columns df) \<and> ''value_std'' \<in> set (columns df) then
        (case numeric (map (\<lambda>r. r ''value_mean'') (rows df)) of
           Inl e \<Rightarrow> Inl e
         | Inr vm \<Rightarrow>
            (case numeric (map (\<lambda>r. r ''value_std'') (rows df)) of
               Inl e \<Rightarrow> Inl e
             | Inr vs \<Rightarrow>
                (let mean_value = nanmean vm; std_value = nanmean vs in
                 Inr (set_column ''is_outlier''
                        (map (\<lambda>x. Flag (exceeds x mean_value std_value)) vm) df))))
      else Inr df)"

definition enrich_dataset :: "env \<Rightarrow> pyrecord list \<Rightarrow> int \<Rightarrow> error + pyrecord list" where
  "enrich_dataset E daily_data raw_count =
     (let df = DataFrame daily_data in
      if \<not> empty_frame df then
        (let df1 = set_scalar ''total_records'' (Num (real_of_int raw_count)) df in
         case py_div raw_count (length (rows df1)) of
           Inl e \<Rightarrow> Inl e
         | Inr avg \<Rightarrow>
            (let df2 = set_scalar ''avg_records_per_day'' (Num avg) df1;
                 df3 = set_scalar ''processing_timestamp'' (Str (now_iso E)) df2 in
             case add_moving_average df3 of
               Inl e \<Rightarrow> Inl e
             | Inr df4 \<Rightarrow>
                (case add_day_of_week E df4 of
                   Inl e \<Rightarrow> Inl e
                 | Inr df5 \<Rightarrow>
                    (case add_outlier_flag df5 of
                       Inl e \<Rightarrow> Inl e
                     | Inr df6 \<Rightarrow> Inr (to_dict df6)))))
      else Inr (to_dict df))"

section \<open>The upload tasks\<close>

text \<open>
  The bucket maps object keys to payloads. \<open>S3Hook.load_file\<close> refuses a key that
  exists unless \<open>replace\<close> is set; otherwise it stores the payload under the key, in
  place of what was there.
\<close>

type_synonym 'p bucket = "string \<Rightarrow> 'p option"

definition load_file :: "'p \<Rightarrow> string \<Rightarrow> bool \<Rightarrow> 'p bucket \<Rightarrow> error + 'p bucket" where
  "load_file payload key replace s3 =
     (if \<not> replace \<and> s3 key \<noteq> None then Inl ValueError else Inr (s3(key \<mapsto> payload)))"

text \<open>Lines 141-159 and 162-180. The tasks take the data only; the path is built from a
  string literal.\<close>

definition upload_daily_data :: "'p \<Rightarrow> 'p bucket \<Rightarrow> error + string \<times> 'p bucket" where
  "upload_daily_data data s3 =
     (let execution_date = ''{{ ds }}'';
          s3_path = ''daily/'' @ execution_date @ ''/daily_metrics.json'' in
      case load_file data s3_path True s3 of
        Inl e \<Rightarrow> Inl e
      | Inr s3' \<Rightarrow> Inr (s3_path, s3'))"

definition upload_hourly_data :: "'p \<Rightarrow> 'p bucket \<Rightarrow> error + string \<times> 'p bucket" where
  "upload_hourly_data data s3 =
     (let execution_date = ''{{ ds }}'';
          s3_path = ''hourly/'' @ execution_date @ ''/hourly_metrics.json'' in
      case load_file data s3_path True s3 of
        Inl e \<Rightarrow> Inl e
      | Inr s3' \<Rightarrow> Inr (s3_path, s3'))"

text \<open>The keys that the write contract names for a logical date.\<close>

definition daily_key :: "string \<Rightarrow> string" where
  "daily_key execution_date = ''daily/'' @ execution_date @ ''/daily_metrics.json''"

definition hourly_key :: "string \<Rightarrow> string" where
  "hourly_key execution_date = ''hourly/'' @ execution_date @ ''/hourly_metrics.json''"

section \<open>Retries\<close>

text \<open>Lines 29-40: the default arguments of the tasks, with the durations in seconds.\<close>

record task_args =
  retries :: nat
  retry_delay :: nat
  retry_exponential_backoff :: bool
  max_retry_delay :: nat
  execution_timeout :: nat

definition default_args :: task_args where
  "default_args = \<lparr>retries = 3, retry_delay = 5 * 60, retry_exponential_backoff = True,
     max_retry_delay = 60 * 60, execution_timeout = 120 * 60\<rparr>"

text \<open>
  Modelled from the spec: the executor that retries a task is the scheduler of the
  workflow library, which is not part of the source; the source only configures it. The
  policy has up to \<open>max_attempts\<close> tries; the delay before attempt \<open>k + 1\<close> is
  \<open>min (base_delay * multiplier ^ k) max_delay\<close> with exponential backoff and the constant
  \<open>base_delay\<close> without; a task that exhausts its attempts is \<open>Failed\<close>. Attempts are
  counted from 0, so that the first delay is \<open>base_delay\<close>. The callable tells for each
  attempt whether it succeeds. The result is the final state, the number of attempts made
  and the delays waited between them.
\<close>

record retry_policy =
  max_attempts :: nat
  base_delay :: nat
  multiplier :: nat
  exponential_backoff :: bool
  max_delay :: nat

datatype task_state = Succeeded | Failed

definition delay_before :: "retry_policy \<Rightarrow> nat \<Rightarrow> nat" where
  "delay_before p k =
     (if exponential_backoff p then min (base_delay p * multiplier p ^ k) (max_delay p)
      else base_delay p)"

fun attempts :: "retry_policy \<Rightarrow> (nat \<Rightarrow> bool) \<Rightarrow> nat \<Rightarrow> nat \<Rightarrow> task_state \<times> nat \<times> nat list" where
  "attempts p callable 0 k = (Failed, k, [])"
| "attempts p callable (Suc left) k =
     (if callable k then (Succeeded, Suc k, [])
      else if left = 0 then (Failed, Suc k, [])
      else (case attempts p callable left (Suc k) of
              (st, n, ds) \<Rightarrow> (st, n, delay_before p k # ds)))"

definition execute :: "retry_policy \<Rightarrow> (nat \<Rightarrow> bool) \<Rightarrow> task_state \<times> nat \<times> nat list" where
  "execute p callable = attempts p callable (max_attempts p) 0"

section \<open>Vocabulary of the properties\<close>

text \<open>
  A daily aggregate, as the data model has it and as the daily aggregation produces it:
  a record with a mean and a standard deviation of the value, each a number or \<open>NaN\<close>,
  and with none of the fields that the enrichment adds.
\<close>

definition numeric_field :: "string \<Rightarrow> pyrecord \<Rightarrow> bool" where
  "numeric_field k d =
     (case map_of d k of Some (Num x) \<Rightarrow> True | Some NaN \<Rightarrow> True | _ \<Rightarrow> False)"

definition enrichment_fields :: "string list" where
  "enrichment_fields = [''total_records'', ''avg_records_per_day'', ''processing_timestamp'',
     ''value_mean_3day_ma'', ''day_of_week'', ''is_outlier'']"

definition daily_aggregate :: "pyrecord \<Rightarrow> bool" where
  "daily_aggregate d =
     (numeric_field ''value_mean'' d \<and> numeric_field ''value_std'' d \<and>
      list_all (\<lambda>k. k \<notin> set enrichment_fields) (map fst d))"

definition has_key :: "string \<Rightarrow> pyrecord \<Rightarrow> bool" where
  "has_key k d = (k \<in> set (map fst d))"

definition date_column :: "pyrecord list \<Rightarrow> cell list" where
  "date_column ds = map (\<lambda>d. row_of d ''date'') ds"

text \<open>A daily-aggregate input of the enrichment: daily aggregates whose dates, where
  the records carry a \<open>date\<close>, have a day name.\<close>

definition daily_aggregates :: "env \<Rightarrow> pyrecord list \<Rightarrow> bool" where
  "daily_aggregates E ds =
     (list_all daily_aggregate ds \<and>
      (if list_ex (has_key ''date'') ds
       then list_all (\<lambda>c. day_name E (date_column ds) c \<noteq> None) (date_column ds)
       else True))"

text \<open>The means and the standard deviations of the rows, as floats.\<close>

definition value_means :: "pyrecord list \<Rightarrow> real option list" where
  "value_means ds = map (\<lambda>d. num_of (row_of d ''value_mean'')) ds"

definition value_stds :: "pyrecord list \<Rightarrow> real option list" where
  "value_stds ds = map (\<lambda>d. num_of (row_of d ''value_std'')) ds"





section \<open>Examples\<close>

text \<open>An environment whose parser knows three timestamps, and inputs for the
  properties below.\<close>

definition example_parse :: "cell list \<Rightarrow> cell \<Rightarrow> (int \<times> nat \<times> nat) option" where
  "example_parse col c =
     (case c of
        Str s \<Rightarrow> map_of [(''2025-05-01T10:00'', (20209, 10, 0)),
                          (''2025-05-01T11:30'', (20209, 11, 1800)),
                          (''2025-05-02T09:15'', (20210, 9, 900))] s
      | _ \<Rightarrow> None)"

definition example_env :: env where
  "example_env = \<lparr>today = ''2025-05-03'', now_iso = ''2025-05-03T02:00:00'',
     parse_ts = example_parse, day_name = (\<lambda>col c. None)\<rparr>"

definition three_days :: "pyrecord list" where
  "three_days =
     [[(''timestamp'', Day 20209), (''value_mean'', Num 1), (''value_std'', Num 1)],
      [(''timestamp'', Day 20210), (''value_mean'', Num 2), (''value_std'', NaN)],
      [(''timestamp'', Day 20211), (''value_mean'', Num 6), (''value_std'', Num (1 / 2))]]"

text \<open>Three rows that have a standard deviation and no mean.\<close>

definition no_mean_rows :: "pyrecord list" where
  "no_mean_rows = [[(''value_std'', Num 1)], [(''value_std'', Num 2)], [(''value_std'', Num 3)]]"

text \<open>Raw records: one with a missing value, two of which one has no id, and one
  valid record.\<close>

definition raw_record :: "cell \<Rightarrow> string \<Rightarrow> cell \<Rightarrow> pyrecord" where
  "raw_record i t v = [(''id'', i), (''timestamp'', Str t), (''value'', v)]"



definition single_record :: "pyrecord list" where
  "single_record = [raw_record (Num 1) ''2025-05-01T10:00'' (Num 4)]"

section \<open>Facts about frames\<close>

lemma columns_set_column: "columns (set_column n vs df) = (if n \<in> set (columns df) then columns df else columns df @ [n])"
  by (simp add: set_column_def)

lemma set_columns_set_column: "set (columns (set_column n vs df)) = insert n (set (columns df))"
  by (auto simp: set_column_def)

lemma length_rows_set_column: "length vs = length (rows df) \<Longrightarrow> length (rows (set_column n vs df)) = length (rows df)"
  by (simp add: set_column_def)

lemma nth_rows_set_column: "length vs = length (rows df) \<Longrightarrow> i < length (rows df) \<Longrightarrow> rows (set_column n vs df) ! i = (rows df ! i)(n := vs ! i)"
  by (simp add: set_column_def)

lemma set_columns_set_scalar: "set (columns (set_scalar n v df)) = insert n (set (columns df))"
  by (simp add: set_scalar_def set_columns_set_column)

lemma length_rows_set_scalar: "length (rows (set_scalar n v df)) = length (rows df)"
  by (simp add: set_scalar_def length_rows_set_column)

lemma nth_rows_set_scalar: "i < length (rows df) \<Longrightarrow> rows (set_scalar n v df) ! i = (rows df ! i)(n := v)"
  by (simp add: set_scalar_def nth_rows_set_column)

lemma map_of_graph: "map_of (map (\<lambda>c. (c, f c)) cs) k = (if k \<in> set cs then Some (f k) else None)"
  by (induction cs) auto

lemma length_to_dict: "length (to_dict df) = length (rows df)"
  by (simp add: to_dict_def)

lemma map_of_to_dict: "i < length (rows df) \<Longrightarrow> map_of (to_dict df ! i) k = (if k \<in> set (columns df) then Some ((rows df ! i) k) else None)"
  by (simp add: to_dict_def map_of_graph)

lemma set_add_keys: "set (add_keys acc ks) = set acc \<union> set ks"
  by (induction ks arbitrary: acc) auto

lemma set_fold_add_keys: "set (fold (\<lambda>d acc. add_keys acc (map fst d)) ds acc0) = set acc0 \<union> (\<Union>d\<in>set ds. fst ` set d)"
  by (induction ds arbitrary: acc0) (auto simp: set_add_keys)

lemma set_columns_DataFrame: "set (columns (DataFrame ds)) = (\<Union>d\<in>set ds. fst ` set d)"
  by (simp add: DataFrame_def set_fold_add_keys)

lemma rows_DataFrame: "rows (DataFrame ds) = map row_of ds"
  by (simp add: DataFrame_def)

lemma length_numeric: "numeric cs = Inr xs \<Longrightarrow> length xs = length cs"
  by (induction cs arbitrary: xs) (auto split: sum.splits)

lemma numeric_nth: "numeric cs = Inr xs \<Longrightarrow> i < length cs \<Longrightarrow> numeric_cell (cs ! i) = Inr (xs ! i)"
proof (induction cs arbitrary: xs i)
  case Nil then show ?case by simp
next
  case (Cons c cs)
  then show ?case by (cases i) (auto split: sum.splits)
qed

lemma numeric_ok: "list_all (\<lambda>c. \<exists>x. numeric_cell c = Inr x) cs \<Longrightarrow> \<exists>xs. numeric cs = Inr xs"
  by (induction cs) (auto split: sum.splits)

lemma length_rolling_mean3: "length (rolling_mean3 xs) = length xs"
  by (simp add: rolling_mean3_def)

lemma nth_rolling_mean3: "i < length xs \<Longrightarrow> rolling_mean3 xs ! i = nanmean (window3 xs i)"
  by (simp add: rolling_mean3_def)

lemma numeric_field_cell: "numeric_field k d \<Longrightarrow> numeric_cell (row_of d k) = Inr (num_of (row_of d k))"
  by (auto simp: numeric_field_def row_of_def split: option.splits cell.splits)

lemma numeric_field_key: "numeric_field k d \<Longrightarrow> k \<in> fst ` set d"
  by (auto simp: numeric_field_def split: option.splits dest: map_of_SomeD intro: rev_image_eqI)

lemma numeric_map: "(\<And>x. x \<in> set xs \<Longrightarrow> numeric_cell (f x) = Inr (num_of (f x))) \<Longrightarrow> numeric (map f xs) = Inr (map (\<lambda>x. num_of (f x)) xs)"
  by (induction xs) auto

lemma column_set_column_other: "n \<noteq> k \<Longrightarrow> length vs = length (rows df) \<Longrightarrow>
   map (\<lambda>r. r k) (rows (set_column n vs df)) = map (\<lambda>r. r k) (rows df)"
  by (auto simp: set_column_def intro!: nth_equalityI)

lemma column_set_scalar_other: "n \<noteq> k \<Longrightarrow> map (\<lambda>r. r k) (rows (set_scalar n v df)) = map (\<lambda>r. r k) (rows df)"
  by (simp add: set_scalar_def column_set_column_other)

lemma add_moving_average_short: "length (rows df) < 3 \<Longrightarrow> add_moving_average df = Inr df"
  by (simp add: add_moving_average_def)

lemma add_moving_average_long:
  "3 \<le> length (rows df) \<Longrightarrow> ''value_mean'' \<in> set (columns df) \<Longrightarrow>
   numeric (map (\<lambda>r. r ''value_mean'') (rows df)) = Inr xs \<Longrightarrow>
   add_moving_average df = Inr (set_column ''value_mean_3day_ma'' (rolling_mean3 xs) df)"
  by (simp add: add_moving_average_def get_column_def)

lemma all_some_map: "list_all (\<lambda>x. f x \<noteq> None) xs \<Longrightarrow> all_some (map f xs) = Some (map (\<lambda>x. the (f x)) xs)"
  by (induction xs) auto

lemma add_day_of_week_absent: "''date'' \<notin> set (columns df) \<Longrightarrow> add_day_of_week E df = Inr df"
  by (simp add: add_day_of_week_def)

lemma add_day_of_week_present:
  assumes "''date'' \<in> set (columns df)" and "col = map (\<lambda>r. r ''date'') (rows df)"
    and "list_all (\<lambda>c. day_name E col c \<noteq> None) col"
  shows "add_day_of_week E df =
     Inr (set_column ''day_of_week'' (map (\<lambda>c. the (day_name E col c)) col) df)"
proof -
  have "all_some (map (day_name E col) col) = Some (map (\<lambda>c. the (day_name E col c)) col)"
    using assms(3) by (rule all_some_map)
  then show ?thesis
    unfolding add_day_of_week_def Let_def assms(2)[symmetric]
    by (simp only: assms(1) if_True option.case)
qed

lemma add_outlier_flag_present:
  "''value_mean'' \<in> set (columns df) \<Longrightarrow> ''value_std'' \<in> set (columns df) \<Longrightarrow>
   numeric (map (\<lambda>r. r ''value_mean'') (rows df)) = Inr vm \<Longrightarrow>
   numeric (map (\<lambda>r. r ''value_std'') (rows df)) = Inr vs \<Longrightarrow>
   add_outlier_flag df = Inr (set_column ''is_outlier'' (map (\<lambda>x. Flag (exceeds x (nanmean vm) (nanmean vs))) vm) df)"
  by (simp add: add_outlier_flag_def Let_def)

section \<open>Properties of enrich_dataset\<close>

text \<open>
  C5. Whatever the raw count, \<open>enrich_dataset\<close> on the empty list returns the empty list:
  the frame is empty, so the division for the average per day is not reached and no
  \<open>ZeroDivisionError\<close> is raised.
\<close>

theorem enrich_dataset_empty:
  "enrich_dataset E [] raw_count = Inr []"
  by (simp add: enrich_dataset_def DataFrame_def empty_frame_def to_dict_def)

subsection \<open>The enriched frame\<close>

text \<open>On a daily-aggregate input that is not empty no step raises, and the frame that
  is returned is known column by column.\<close>

lemma daily_aggregates_columns:
  assumes "list_all daily_aggregate ds" "ds \<noteq> []"
  shows "''value_mean'' \<in> set (columns (DataFrame ds))" "''value_std'' \<in> set (columns (DataFrame ds))"
proof -
  obtain d where d: "d \<in> set ds" "daily_aggregate d"
    using assms by (cases ds) auto
  then have "''value_mean'' \<in> fst ` set d" "''value_std'' \<in> fst ` set d"
    by (auto simp: daily_aggregate_def dest: numeric_field_key)
  with d(1) show "''value_mean'' \<in> set (columns (DataFrame ds))" "''value_std'' \<in> set (columns (DataFrame ds))"
    by (auto simp: set_columns_DataFrame)
qed

lemma has_key_columns: "list_ex (has_key k) ds = (k \<in> set (columns (DataFrame ds)))"
  by (auto simp: set_columns_DataFrame has_key_def list_ex_iff)

lemma enrich_dataset_frame:
  assumes agg: "daily_aggregates E ds" and ne: "ds \<noteq> []"
  defines "vm \<equiv> map (\<lambda>d. num_of (row_of d ''value_mean'')) ds"
    and "vs \<equiv> map (\<lambda>d. num_of (row_of d ''value_std'')) ds"
  shows "\<exists>F. enrich_dataset E ds raw_count = Inr (to_dict F) \<and>
     length (rows F) = length ds \<and>
     set (columns F) = set (columns (DataFrame ds)) \<union>
        {''total_records'', ''avg_records_per_day'', ''processing_timestamp'', ''is_outlier''} \<union>
        (if 3 \<le> length ds then {''value_mean_3day_ma''} else {}) \<union>
        (if ''date'' \<in> set (columns (DataFrame ds)) then {''day_of_week''} else {}) \<and>
     (\<forall>i<length ds.
        (\<forall>k. k \<notin> set enrichment_fields \<longrightarrow> (rows F ! i) k = row_of (ds ! i) k) \<and>
        (rows F ! i) ''total_records'' = Num (real_of_int raw_count) \<and>
        (rows F ! i) ''avg_records_per_day'' = Num (real_of_int raw_count / real (length ds)) \<and>
        (rows F ! i) ''processing_timestamp'' = Str (now_iso E) \<and>
        (3 \<le> length ds \<longrightarrow> (rows F ! i) ''value_mean_3day_ma'' = nanmean (window3 vm i)) \<and>
        (rows F ! i) ''is_outlier'' = Flag (exceeds (vm ! i) (nanmean vm) (nanmean vs)))"
proof -
  define n where "n = length ds"
  define df where "df = DataFrame ds"
  define df3 where "df3 = set_scalar ''processing_timestamp'' (Str (now_iso E))
      (set_scalar ''avg_records_per_day'' (Num (real_of_int raw_count / real n))
        (set_scalar ''total_records'' (Num (real_of_int raw_count)) df))"
  define df4 where "df4 = (if 3 \<le> n then set_column ''value_mean_3day_ma'' (rolling_mean3 vm) df3 else df3)"
  define col where "col = date_column ds"
  define df5 where "df5 = (if ''date'' \<in> set (columns df) then
      set_column ''day_of_week'' (map (\<lambda>c. the (day_name E col c)) col) df4 else df4)"
  define F where "F = set_column ''is_outlier'' (map (\<lambda>x. Flag (exceeds x (nanmean vm) (nanmean vs))) vm) df5"
  have all: "list_all daily_aggregate ds"
    using agg by (simp add: daily_aggregates_def)
  have cols: "''value_mean'' \<in> set (columns df)" "''value_std'' \<in> set (columns df)"
    using daily_aggregates_columns[OF all ne] by (simp_all add: df_def)
  have rows_df: "rows df = map row_of ds"
    by (simp add: df_def rows_DataFrame)
  have nonempty: "\<not> empty_frame df"
    using cols ne by (auto simp: empty_frame_def rows_df)
  have num_vm: "numeric (map (\<lambda>d. row_of d ''value_mean'') ds) = Inr vm"
    unfolding vm_def using all
    by (intro numeric_map numeric_field_cell) (auto simp: list_all_iff daily_aggregate_def)
  have num_vs: "numeric (map (\<lambda>d. row_of d ''value_std'') ds) = Inr vs"
    unfolding vs_def using all
    by (intro numeric_map numeric_field_cell) (auto simp: list_all_iff daily_aggregate_def)
  have len3: "length (rows df3) = n"
    by (simp add: df3_def length_rows_set_scalar rows_df n_def)
  have cols3: "set (columns df3) = set (columns df) \<union>
      {''total_records'', ''avg_records_per_day'', ''processing_timestamp''}"
    by (auto simp: df3_def set_columns_set_scalar)
  have col3: "\<And>k. k \<notin> set enrichment_fields \<Longrightarrow> map (\<lambda>r. r k) (rows df3) = map (\<lambda>d. row_of d k) ds"
    by (auto simp: df3_def column_set_scalar_other rows_df enrichment_fields_def)
  have vm3: "map (\<lambda>r. r ''value_mean'') (rows df3) = map (\<lambda>d. row_of d ''value_mean'') ds"
    by (rule col3) (simp add: enrichment_fields_def)
  have step4: "add_moving_average df3 = Inr df4"
  proof (cases "3 \<le> n")
    case True
    then show ?thesis
      using add_moving_average_long[of df3 vm] cols3 cols(1) num_vm
      by (simp add: df4_def len3 vm3)
  next
    case False
    then show ?thesis
      by (simp add: df4_def add_moving_average_short len3)
  qed
  have lvm: "length vm = n" and lvs: "length vs = n"
    by (simp_all add: vm_def vs_def n_def)
  have len4: "length (rows df4) = n"
    by (simp add: df4_def len3 length_rows_set_column length_rolling_mean3 lvm)
  have cols4: "set (columns df4) = set (columns df3) \<union> (if 3 \<le> n then {''value_mean_3day_ma''} else {})"
    by (cases "3 \<le> n") (simp_all add: df4_def set_columns_set_column)
  have col4: "map (\<lambda>r. r k) (rows df4) = map (\<lambda>d. row_of d k) ds"
    if k: "k \<notin> set enrichment_fields" for k
  proof -
    have "''value_mean_3day_ma'' \<noteq> k"
      using k by (auto simp: enrichment_fields_def)
    then show ?thesis
      using col3[OF k]
      by (cases "3 \<le> n")
         (simp_all add: df4_def column_set_column_other len3 length_rolling_mean3 lvm)
  qed
  have date4: "(''date'' \<in> set (columns df4)) = (''date'' \<in> set (columns df))"
    by (auto simp: cols4 cols3)
  have datecol4: "map (\<lambda>r. r ''date'') (rows df4) = col"
    unfolding col_def date_column_def by (rule col4) (simp add: enrichment_fields_def)
  have step5: "add_day_of_week E df4 = Inr df5"
  proof (cases "''date'' \<in> set (columns df)")
    case True
    then have "list_all (\<lambda>c. day_name E col c \<noteq> None) col"
      using agg by (simp add: daily_aggregates_def has_key_columns df_def col_def)
    then show ?thesis
      using add_day_of_week_present[of df4 col E] True
      by (simp add: df5_def date4 datecol4)
  next
    case False
    then show ?thesis
      by (simp add: df5_def add_day_of_week_absent date4)
  qed
  have lcol: "length col = n"
    by (simp add: col_def date_column_def n_def)
  have len5: "length (rows df5) = n"
    by (simp add: df5_def len4 length_rows_set_column lcol)
  have cols5: "set (columns df5) = set (columns df4) \<union> (if ''date'' \<in> set (columns df) then {''day_of_week''} else {})"
    by (cases "''date'' \<in> set (columns df)") (simp_all add: df5_def set_columns_set_column)
  have col5: "map (\<lambda>r. r k) (rows df5) = map (\<lambda>d. row_of d k) ds"
    if k: "k \<notin> set enrichment_fields" for k
  proof -
    have "''day_of_week'' \<noteq> k"
      using k by (auto simp: enrichment_fields_def)
    then show ?thesis
      using col4[OF k]
      by (cases "''date'' \<in> set (columns df)")
         (simp_all add: df5_def column_set_column_other len4 lcol)
  qed
  have nf: "''value_mean'' \<notin> set enrichment_fields" "''value_std'' \<notin> set enrichment_fields"
    by (simp_all add: enrichment_fields_def)
  have step6: "add_outlier_flag df5 = Inr F"
    unfolding F_def
    by (rule add_outlier_flag_present)
       (use cols in \<open>simp_all add: cols5 cols4 cols3 col5[OF nf(1)] col5[OF nf(2)] num_vm num_vs\<close>)
  have rows1: "rows (set_scalar ''total_records'' (Num (real_of_int raw_count)) df) \<noteq> []"
    using length_rows_set_scalar[of "''total_records''" "Num (real_of_int raw_count)" df] ne
    by (auto simp: rows_df)
  have result: "enrich_dataset E ds raw_count = Inr (to_dict F)"
    using nonempty rows1 step4 step5 step6
    by (simp add: enrich_dataset_def Let_def df_def[symmetric] py_div_def length_rows_set_scalar
        rows_df df3_def n_def)
  have lenF: "length (rows F) = n"
    by (simp add: F_def length_rows_set_column len5 lvm)
  have colsF: "set (columns F) = set (columns df) \<union>
        {''total_records'', ''avg_records_per_day'', ''processing_timestamp'', ''is_outlier''} \<union>
        (if 3 \<le> n then {''value_mean_3day_ma''} else {}) \<union>
        (if ''date'' \<in> set (columns df) then {''day_of_week''} else {})"
    by (cases "3 \<le> n"; cases "''date'' \<in> set (columns df)")
       (simp_all add: F_def set_columns_set_column cols5 cols4 cols3 insert_commute)
  have rowsF: "(\<forall>k. k \<notin> set enrichment_fields \<longrightarrow> (rows F ! i) k = row_of (ds ! i) k) \<and>
        (rows F ! i) ''total_records'' = Num (real_of_int raw_count) \<and>
        (rows F ! i) ''avg_records_per_day'' = Num (real_of_int raw_count / real n) \<and>
        (rows F ! i) ''processing_timestamp'' = Str (now_iso E) \<and>
        (3 \<le> n \<longrightarrow> (rows F ! i) ''value_mean_3day_ma'' = nanmean (window3 vm i)) \<and>
        (rows F ! i) ''is_outlier'' = Flag (exceeds (vm ! i) (nanmean vm) (nanmean vs))" if i: "i < n" for i
  proof -
    have i0: "i < length (rows df)"
      using i by (simp add: rows_df n_def)
    have r3: "rows df3 ! i = (row_of (ds ! i))(''total_records'' := Num (real_of_int raw_count),
        ''avg_records_per_day'' := Num (real_of_int raw_count / real n),
        ''processing_timestamp'' := Str (now_iso E))"
      using i0 i by (simp add: df3_def nth_rows_set_scalar length_rows_set_scalar rows_df n_def)
    have r4: "rows df4 ! i = (if 3 \<le> n then (rows df3 ! i)(''value_mean_3day_ma'' := nanmean (window3 vm i)) else rows df3 ! i)"
      using i by (simp add: df4_def nth_rows_set_column len3 length_rolling_mean3 lvm nth_rolling_mean3)
    have r5: "rows df5 ! i = (if ''date'' \<in> set (columns df) then (rows df4 ! i)(''day_of_week'' := the (day_name E col (col ! i))) else rows df4 ! i)"
      using i by (simp add: df5_def nth_rows_set_column len4 lcol)
    have r6: "rows F ! i = (rows df5 ! i)(''is_outlier'' := Flag (exceeds (vm ! i) (nanmean vm) (nanmean vs)))"
      using i by (simp add: F_def nth_rows_set_column len5 lvm)
    show ?thesis
      by (simp add: r6 r5 r4 r3 enrichment_fields_def)
  qed
  show ?thesis
    using result lenF colsF rowsF by (intro exI[of _ F]) (simp add: n_def df_def)
qed

lemma window3_nth:
  assumes "i < length xs"
  shows "window3 xs i = map ((!) xs) [i - 2..<Suc i]"
proof -
  have "take (Suc i) xs = map ((!) xs) [0..<Suc i]"
    by (rule nth_equalityI) (use assms in \<open>auto simp del: upt_Suc\<close>)
  then show ?thesis
    by (simp add: window3_def drop_map del: upt_Suc)
qed

lemma daily_aggregate_fst:
  "daily_aggregate d \<Longrightarrow> k \<in> fst ` set d \<Longrightarrow> k \<notin> set enrichment_fields"
  by (auto simp: daily_aggregate_def list_all_iff)

lemma nanmean_single: "numeric_cell c = Inr x \<Longrightarrow> nanmean [x] = c"
  by (cases c) (auto simp: nanmean_def)

lemma daily_aggregate_keys:
  "daily_aggregate d \<Longrightarrow> map_of d k = Some v \<Longrightarrow> k \<notin> set enrichment_fields"
  by (auto simp: daily_aggregate_def list_all_iff dest!: map_of_SomeD)

text \<open>
  C6. On a daily-aggregate input that is not empty, \<open>enrich_dataset\<close> returns one record
  per row. The records carry the moving average exactly when there are at least three
  rows; the value of row \<open>i\<close> is then the mean of the means of rows \<open>i - 2\<close> to \<open>i\<close>, as
  far as they exist (a mean that is \<open>NaN\<close> is skipped, as pandas does), and the value of
  the first row is the mean of that row.
\<close>

theorem enrich_moving_average:
  assumes "daily_aggregates E ds" and "ds \<noteq> []"
  shows "\<exists>out. enrich_dataset E ds raw_count = Inr out \<and> length out = length ds \<and>
     (\<forall>i<length ds. map_of (out ! i) ''value_mean_3day_ma'' =
        (if 3 \<le> length ds
         then Some (nanmean (map ((!) (value_means ds)) [i - 2..<Suc i])) else None)) \<and>
     (if 3 \<le> length ds
      then map_of (out ! 0) ''value_mean_3day_ma'' = map_of (ds ! 0) ''value_mean''
      else True)"
proof -
  obtain F where F: "enrich_dataset E ds raw_count = Inr (to_dict F)"
      "length (rows F) = length ds"
      "set (columns F) = set (columns (DataFrame ds)) \<union>
        {''total_records'', ''avg_records_per_day'', ''processing_timestamp'', ''is_outlier''} \<union>
        (if 3 \<le> length ds then {''value_mean_3day_ma''} else {}) \<union>
        (if ''date'' \<in> set (columns (DataFrame ds)) then {''day_of_week''} else {})"
      "\<And>i. i < length ds \<Longrightarrow> 3 \<le> length ds \<Longrightarrow>
         (rows F ! i) ''value_mean_3day_ma'' = nanmean (window3 (value_means ds) i)"
    using enrich_dataset_frame[OF assms, of raw_count] unfolding value_means_def by blast
  have all: "list_all daily_aggregate ds"
    using assms(1) by (simp add: daily_aggregates_def)
  have noma: "''value_mean_3day_ma'' \<notin> set (columns (DataFrame ds))"
  proof
    assume "''value_mean_3day_ma'' \<in> set (columns (DataFrame ds))"
    then obtain d where "d \<in> set ds" "''value_mean_3day_ma'' \<in> fst ` set d"
      by (auto simp: set_columns_DataFrame)
    then have "''value_mean_3day_ma'' \<notin> set enrichment_fields"
      using all daily_aggregate_fst by (auto simp: list_all_iff)
    then show False
      by (simp add: enrichment_fields_def)
  qed
  have ma: "map_of (to_dict F ! i) ''value_mean_3day_ma'' =
        (if 3 \<le> length ds
         then Some (nanmean (map ((!) (value_means ds)) [i - 2..<Suc i])) else None)"
    if i: "i < length ds" for i
  proof (cases "3 \<le> length ds")
    case True
    then show ?thesis
      using i F(2,3) F(4)[OF i True] by (simp add: map_of_to_dict window3_nth value_means_def)
  next
    case False
    then show ?thesis
      using i F(2,3) noma by (simp add: map_of_to_dict)
  qed
  have first: "map_of (to_dict F ! 0) ''value_mean_3day_ma'' = map_of (ds ! 0) ''value_mean''"
    if three: "3 \<le> length ds"
  proof -
    have d0: "daily_aggregate (ds ! 0)"
      using all assms(2) by (simp add: list_all_length)
    then have nf: "numeric_field ''value_mean'' (ds ! 0)"
      by (simp add: daily_aggregate_def)
    then obtain c where c: "map_of (ds ! 0) ''value_mean'' = Some c"
      by (auto simp: numeric_field_def split: option.splits)
    then have r: "row_of (ds ! 0) ''value_mean'' = c"
      by (simp add: row_of_def)
    have "nanmean [num_of c] = c"
      using numeric_field_cell[OF nf] r by (intro nanmean_single) simp
    moreover have "0 < length ds" using assms(2) by simp
    ultimately show ?thesis
      using ma[of 0] three assms(2) c r by (simp add: value_means_def nth_map)
  qed
  show ?thesis
    using F(1,2) ma first by (intro exI[of _ "to_dict F"]) (simp add: length_to_dict)
qed

lemma three_days_aggregates: "daily_aggregates example_env three_days"
  by (simp add: daily_aggregates_def daily_aggregate_def numeric_field_def enrichment_fields_def
      has_key_def three_days_def)

theorem enrich_moving_average_witness:
  "daily_aggregates example_env three_days \<and> three_days \<noteq> [] \<and>
   (\<exists>out. enrich_dataset example_env three_days 22 = Inr out \<and> length out = 3 \<and>
      map_of (out ! 0) ''value_mean_3day_ma'' = Some (Num 1) \<and>
      map_of (out ! 1) ''value_mean_3day_ma'' = Some (Num (3 / 2)) \<and>
      map_of (out ! 2) ''value_mean_3day_ma'' = Some (Num 3))"
proof -
  have ne: "three_days \<noteq> []"
    by (simp add: three_days_def)
  obtain out where out: "enrich_dataset example_env three_days 22 = Inr out"
      "length out = length three_days"
      "\<forall>i<length three_days. map_of (out ! i) ''value_mean_3day_ma'' =
        (if 3 \<le> length three_days
         then Some (nanmean (map ((!) (value_means three_days)) [i - 2..<Suc i])) else None)"
    using enrich_moving_average[OF three_days_aggregates ne, of 22] by blast
  have len: "length three_days = 3"
    by (simp add: three_days_def)
  have vm: "value_means three_days = [Some 1, Some 2, Some 6]"
    by (simp add: value_means_def three_days_def row_of_def)
  have "map_of (out ! 0) ''value_mean_3day_ma'' = Some (Num 1)"
    using out(3) by (simp add: len vm nanmean_def)
  moreover have "map_of (out ! 1) ''value_mean_3day_ma'' = Some (Num (3 / 2))"
    using out(3) by (simp add: len vm nanmean_def)
  moreover have "map_of (out ! 2) ''value_mean_3day_ma'' = Some (Num 3)"
    using out(3) by (simp add: len vm nanmean_def upt_rec)
  ultimately show ?thesis
    using three_days_aggregates ne out(1,2) len by auto
qed

text \<open>
  C10. On a daily-aggregate input that is not empty, \<open>enrich_dataset\<close> returns as many
  records as it is given, and every field of an input record is in the matching output
  record with the same value: the enrichment only adds fields.
\<close>

theorem enrich_keeps_aggregate_fields:
  assumes "daily_aggregates E ds" and "ds \<noteq> []"
  shows "\<exists>out. enrich_dataset E ds raw_count = Inr out \<and> length out = length ds \<and>
     (\<forall>i<length ds. \<forall>k v. map_of (ds ! i) k = Some v \<longrightarrow> map_of (out ! i) k = Some v)"
proof -
  obtain F where F: "enrich_dataset E ds raw_count = Inr (to_dict F)"
      "length (rows F) = length ds"
      "set (columns (DataFrame ds)) \<subseteq> set (columns F)"
      "\<And>i k. i < length ds \<Longrightarrow> k \<notin> set enrichment_fields \<Longrightarrow> (rows F ! i) k = row_of (ds ! i) k"
    using enrich_dataset_frame[OF assms, of raw_count] by blast
  have all: "list_all daily_aggregate ds"
    using assms(1) by (simp add: daily_aggregates_def)
  have "map_of (to_dict F ! i) k = Some v" if i: "i < length ds" and kv: "map_of (ds ! i) k = Some v" for i k v
  proof -
    have "daily_aggregate (ds ! i)"
      using all i by (simp add: list_all_length)
    then have k: "k \<notin> set enrichment_fields"
      using kv by (rule daily_aggregate_keys)
    have "k \<in> fst ` set (ds ! i)"
      using kv by (auto dest!: map_of_SomeD intro: rev_image_eqI)
    then have "k \<in> set (columns (DataFrame ds))"
      using i by (auto simp: set_columns_DataFrame)
    then have "k \<in> set (columns F)"
      using F(3) by blast
    then show ?thesis
      using i F(2) F(4)[OF i k] kv by (simp add: map_of_to_dict row_of_def)
  qed
  then show ?thesis
    using F(1,2) by (intro exI[of _ "to_dict F"]) (simp add: length_to_dict)
qed

theorem enrich_keeps_aggregate_fields_witness:
  "daily_aggregates example_env three_days \<and> three_days \<noteq> [] \<and>
   (\<exists>out. enrich_dataset example_env three_days 22 = Inr out \<and> length out = 3 \<and>
      map_of (out ! 1) ''timestamp'' = Some (Day 20210) \<and>
      map_of (out ! 1) ''value_mean'' = Some (Num 2) \<and>
      map_of (out ! 1) ''value_std'' = Some NaN)"
proof -
  have ne: "three_days \<noteq> []"
    by (simp add: three_days_def)
  obtain out where out: "enrich_dataset example_env three_days 22 = Inr out"
      "length out = length three_days"
      "\<forall>i<length three_days. \<forall>k v. map_of (three_days ! i) k = Some v \<longrightarrow> map_of (out ! i) k = Some v"
    using enrich_keeps_aggregate_fields[OF three_days_aggregates ne, of 22] by blast
  have len: "length three_days = 3"
    by (simp add: three_days_def)
  have "map_of (three_days ! 1) ''timestamp'' = Some (Day 20210)"
    "map_of (three_days ! 1) ''value_mean'' = Some (Num 2)"
    "map_of (three_days ! 1) ''value_std'' = Some NaN"
    by (simp_all add: three_days_def)
  then have "map_of (out ! 1) ''timestamp'' = Some (Day 20210)"
    "map_of (out ! 1) ''value_mean'' = Some (Num 2)"
    "map_of (out ! 1) ''value_std'' = Some NaN"
    using out(3) len by auto
  then show ?thesis
    using three_days_aggregates ne out(1,2) len by auto
qed

text \<open>
  C7. The outlier flag is guarded by the presence of both columns, but the moving average
  of lines 97-98 reads the mean without a guard: on three rows that have no
  \<open>value_mean\<close> the call raises \<open>KeyError\<close> instead of omitting the flag. On two such
  rows it returns, and no record has the flag.
\<close>

theorem enrich_missing_mean_raises:
  "enrich_dataset E no_mean_rows 3 = Inl KeyError \<and>
   (\<exists>out. enrich_dataset E (take 2 no_mean_rows) 3 = Inr out \<and>
      list_all (\<lambda>d. map_of d ''is_outlier'' = None) out)"
  by (simp add: no_mean_rows_def enrich_dataset_def DataFrame_def empty_frame_def py_div_def
      set_scalar_def set_column_def add_moving_average_def get_column_def add_day_of_week_def
      add_outlier_flag_def to_dict_def Let_def)

subsection \<open>The other enrichment fields\<close>

lemma no_enrichment_column:
  assumes "list_all daily_aggregate ds" and "k \<in> set enrichment_fields"
  shows "k \<notin> set (columns (DataFrame ds))"
proof
  assume "k \<in> set (columns (DataFrame ds))"
  then obtain d where "d \<in> set ds" "k \<in> fst ` set d"
    by (auto simp: set_columns_DataFrame)
  then have "k \<notin> set enrichment_fields"
    using assms(1) daily_aggregate_fst by (auto simp: list_all_iff)
  then show False
    using assms(2) by simp
qed

lemma enrich_outlier_flag:
  assumes "daily_aggregates E ds" and "ds \<noteq> []"
  shows "\<exists>out. enrich_dataset E ds raw_count = Inr out \<and> length out = length ds \<and>
     (\<forall>i<length ds. map_of (out ! i) ''is_outlier'' =
        Some (Flag (exceeds (value_means ds ! i) (nanmean (value_means ds))
                      (nanmean (value_stds ds)))))"
proof -
  obtain F where F: "enrich_dataset E ds raw_count = Inr (to_dict F)"
      "length (rows F) = length ds"
      "set (columns F) = set (columns (DataFrame ds)) \<union>
        {''total_records'', ''avg_records_per_day'', ''processing_timestamp'', ''is_outlier''} \<union>
        (if 3 \<le> length ds then {''value_mean_3day_ma''} else {}) \<union>
        (if ''date'' \<in> set (columns (DataFrame ds)) then {''day_of_week''} else {})"
      "\<And>i. i < length ds \<Longrightarrow> (rows F ! i) ''is_outlier'' =
          Flag (exceeds (value_means ds ! i) (nanmean (value_means ds)) (nanmean (value_stds ds)))"
    using enrich_dataset_frame[OF assms, of raw_count]
    unfolding value_means_def value_stds_def by blast
  have col: "''is_outlier'' \<in> set (columns F)"
    unfolding F(3) by blast
  show ?thesis
    using F(1,2,4) col by (intro exI[of _ "to_dict F"]) (simp add: length_to_dict map_of_to_dict)
qed

lemma enrich_totals:
  assumes "daily_aggregates E ds" and "ds \<noteq> []"
  shows "\<exists>out. enrich_dataset E ds raw_count = Inr out \<and> length out = length ds \<and>
     (\<forall>i<length ds.
        map_of (out ! i) ''total_records'' = Some (Num (real_of_int raw_count)) \<and>
        map_of (out ! i) ''avg_records_per_day'' =
          Some (Num (real_of_int raw_count / real (length ds))) \<and>
        (map_of (out ! i) ''value_mean_3day_ma'' = None) = (length ds < 3))"
proof -
  obtain F where F: "enrich_dataset E ds raw_count = Inr (to_dict F)"
      "length (rows F) = length ds"
      "set (columns F) = set (columns (DataFrame ds)) \<union>
        {''total_records'', ''avg_records_per_day'', ''processing_timestamp'', ''is_outlier''} \<union>
        (if 3 \<le> length ds then {''value_mean_3day_ma''} else {}) \<union>
        (if ''date'' \<in> set (columns (DataFrame ds)) then {''day_of_week''} else {})"
      "\<And>i. i < length ds \<Longrightarrow> (rows F ! i) ''total_records'' = Num (real_of_int raw_count)"
      "\<And>i. i < length ds \<Longrightarrow> (rows F ! i) ''avg_records_per_day'' =
          Num (real_of_int raw_count / real (length ds))"
    using enrich_dataset_frame[OF assms, of raw_count] by blast
  have c1: "''total_records'' \<in> set (columns F)" and c2: "''avg_records_per_day'' \<in> set (columns F)"
    unfolding F(3) by blast+
  have "''value_mean_3day_ma'' \<notin> set (columns (DataFrame ds))"
    using assms(1)
    by (intro no_enrichment_column) (simp_all add: daily_aggregates_def enrichment_fields_def)
  then have c3: "(''value_mean_3day_ma'' \<in> set (columns F)) = (3 \<le> length ds)"
    unfolding F(3) by (cases "3 \<le> length ds") simp_all
  have "map_of (to_dict F ! i) ''total_records'' = Some (Num (real_of_int raw_count)) \<and>
        map_of (to_dict F ! i) ''avg_records_per_day'' =
          Some (Num (real_of_int raw_count / real (length ds))) \<and>
        (map_of (to_dict F ! i) ''value_mean_3day_ma'' = None) = (length ds < 3)"
    if "i < length ds" for i
    using that F(2) F(4)[OF that] F(5)[OF that] c1 c2 c3
    by (simp add: map_of_to_dict not_le)
  then show ?thesis
    using F(1,2) by (intro exI[of _ "to_dict F"]) (simp add: length_to_dict)
qed

section \<open>Properties of clean_dataset\<close>

subsection \<open>The hourly aggregation and the return\<close>

text \<open>
  Both index levels of the hourly aggregation are named \<open>timestamp\<close>, so \<open>reset_index\<close>
  inserts the second level and then finds the label of the first: line 62 raises on every
  frame that gets there, and \<open>clean_dataset\<close> never returns.
\<close>

lemma rows_set_scalar: "rows (set_scalar n v df) = map (\<lambda>r. r(n := v)) (rows df)"
  by (auto simp: set_scalar_def set_column_def intro!: nth_equalityI)

lemma columns_set_scalar: "columns (set_scalar n v df) = (if n \<in> set (columns df) then columns df else columns df @ [n])"
  by (simp add: set_scalar_def set_column_def)

lemma hourly_flatten: "flatten \<lparr>index_names = ns, index = ix, labels = hourly_spec, body = b\<rparr> =
   [''value_mean'', ''value_sum'', ''value_count'']"
  by (simp add: flatten_def hourly_spec_def)

lemma hourly_reset_index:
  "reset_index \<lparr>index_names = [''timestamp'', ''timestamp''], index = ix, labels = hourly_spec, body = b\<rparr>
     = Inl ValueError"
proof -
  have "[0..<length [''timestamp'', ''timestamp'']] = [0, 1]"
    by (simp add: upt_rec)
  then show ?thesis
    by (simp add: reset_index_def hourly_flatten insert_column_def)
qed

lemma hourly_aggregation_raises:
  "hourly_aggregation df =
     Inl (case agg_check df hourly_spec of Some e \<Rightarrow> e | None \<Rightarrow> ValueError)"
  by (simp add: hourly_aggregation_def groupby_agg_def hourly_reset_index Let_def split: option.splits)

lemma clean_dataset_raises: "\<exists>e. snd (clean_dataset E df) = Inl e"
  by (simp add: clean_dataset_def hourly_aggregation_raises Let_def split: sum.splits)

lemma clean_dataset_caller:
  "fst (clean_dataset E df) =
     (case dropna [''id'', ''timestamp''] df of Inl e \<Rightarrow> df | Inr df1 \<Rightarrow> parse_timestamps E df1)"
  by (simp add: clean_dataset_def Let_def split: sum.splits)

subsection \<open>The clock\<close>

text \<open>The processing date is set in the frame of valid rows only and no aggregation
  reads it.\<close>

lemma agg_check_cong:
  assumes "set (columns df) = set (columns df')"
    and "\<And>c h. (c, h) \<in> set spec \<Longrightarrow> map (\<lambda>r. r c) (rows df) = map (\<lambda>r. r c) (rows df')"
  shows "agg_check df spec = agg_check df' spec"
  using assms
proof (induction spec)
  case Nil
  then show ?case by simp
next
  case (Cons a spec)
  obtain c h where a: "a = (c, h)"
    by (cases a)
  have col: "map (\<lambda>r. r c) (rows df) = map (\<lambda>r. r c) (rows df')"
    using Cons.prems(2)[of c h] by (simp add: a)
  have "agg_check df spec = agg_check df' spec"
    using Cons.prems by (intro Cons.IH) auto
  then show ?case
    by (simp add: a col Cons.prems(1) split: sum.splits)
qed

lemma keys_of_map: "(\<And>r. key (f r) = key r) \<Longrightarrow> keys_of key (map f rs) = keys_of key rs"
  by (induction rs) (auto split: option.splits)

lemma agg_row_cong:
  assumes "\<And>c h. (c, h) \<in> set spec \<Longrightarrow> map (\<lambda>r. r c) grp = map (\<lambda>r. r c) grp'"
  shows "agg_row spec grp = agg_row spec grp'"
proof -
  have "map (\<lambda>(c, h). (c @ ''_'' @ how_name h, aggregate h (map (\<lambda>r. r c) grp))) spec =
        map (\<lambda>(c, h). (c @ ''_'' @ how_name h, aggregate h (map (\<lambda>r. r c) grp'))) spec"
    using assms by (intro map_cong) auto
  then show ?thesis
    unfolding agg_row_def by (rule arg_cong)
qed

lemma groupby_agg_set_scalar:
  assumes key: "\<And>r x. key (r(c := x)) = key r" and c: "c \<notin> fst ` set spec"
  shows "groupby_agg names key cells spec (set_scalar c v df) =
         groupby_agg names key cells spec (df\<lparr>columns := columns (set_scalar c v df)\<rparr>)"
proof -
  let ?f = "\<lambda>r. r(c := v)"
  have other: "map (\<lambda>r. r c') (map ?f rs) = map (\<lambda>r. r c') rs" if "(c', h) \<in> set spec" for c' h rs
  proof -
    have "c' \<noteq> c" using that c by force
    then show ?thesis by simp
  qed
  have check: "agg_check (set_scalar c v df) spec = agg_check (df\<lparr>columns := columns (set_scalar c v df)\<rparr>) spec"
  proof (rule agg_check_cong)
    show "set (columns (set_scalar c v df)) = set (columns (df\<lparr>columns := columns (set_scalar c v df)\<rparr>))"
      by simp
    fix c' h assume "(c', h) \<in> set spec"
    from other[OF this, of "rows df"]
    show "map (\<lambda>r. r c') (rows (set_scalar c v df)) =
          map (\<lambda>r. r c') (rows (df\<lparr>columns := columns (set_scalar c v df)\<rparr>))"
      by (simp add: rows_set_scalar)
  qed
  have keys: "keys_of key (map ?f (rows df)) = keys_of key (rows df)"
    by (rule keys_of_map) (rule key)
  have grp: "agg_row spec (filter (\<lambda>r. key r = Some k) (map ?f (rows df))) =
             agg_row spec (filter (\<lambda>r. key r = Some k) (rows df))" for k
  proof (rule agg_row_cong)
    fix c' h assume "(c', h) \<in> set spec"
    then have "c' \<noteq> c"
      using c by force
    then show "map (\<lambda>r. r c') (filter (\<lambda>r. key r = Some k) (map ?f (rows df))) =
               map (\<lambda>r. r c') (filter (\<lambda>r. key r = Some k) (rows df))"
      by (simp add: filter_map o_def key)
  qed
  show ?thesis
    by (simp add: groupby_agg_def check groupby_def rows_set_scalar keys grp Let_def o_def
        split: option.splits)
qed

lemma date_key_update: "c \<noteq> ''timestamp'' \<Longrightarrow> date_key (r(c := x)) = date_key r"
  by (simp add: date_key_def)

lemma date_hour_key_update: "c \<noteq> ''timestamp'' \<Longrightarrow> date_hour_key (r(c := x)) = date_hour_key r"
  by (simp add: date_hour_key_def)

lemma valid_rows_clock:
  "daily_aggregation (valid_rows E' df) = daily_aggregation (valid_rows E df)"
  "hourly_aggregation (valid_rows E' df) = hourly_aggregation (valid_rows E df)"
  "length (rows (valid_rows E' df)) = length (rows (valid_rows E df))"
proof -
  let ?d = "df\<lparr>rows := filter (\<lambda>r. \<not> isna (r ''timestamp'')) (rows df)\<rparr>"
  have cols: "columns (set_scalar ''processed_date'' (Str (today E')) ?d) =
              columns (set_scalar ''processed_date'' (Str (today E)) ?d)"
    by (simp add: columns_set_scalar)
  have "groupby_agg [''timestamp''] date_key (\<lambda>d. [Day d]) daily_spec (valid_rows E' df) =
        groupby_agg [''timestamp''] date_key (\<lambda>d. [Day d]) daily_spec (valid_rows E df)"
    unfolding valid_rows_def
    by (subst (1 2) groupby_agg_set_scalar) (simp_all add: date_key_update daily_spec_def cols)
  then show "daily_aggregation (valid_rows E' df) = daily_aggregation (valid_rows E df)"
    by (simp add: daily_aggregation_def)
  have "groupby_agg [''timestamp'', ''timestamp''] date_hour_key (\<lambda>(d, h). [Day d, Num (real h)])
          hourly_spec (valid_rows E' df) =
        groupby_agg [''timestamp'', ''timestamp''] date_hour_key (\<lambda>(d, h). [Day d, Num (real h)])
          hourly_spec (valid_rows E df)"
    unfolding valid_rows_def
    by (subst (1 2) groupby_agg_set_scalar) (simp_all add: date_hour_key_update hourly_spec_def cols)
  then show "hourly_aggregation (valid_rows E' df) = hourly_aggregation (valid_rows E df)"
    by (simp add: hourly_aggregation_def)
  show "length (rows (valid_rows E' df)) = length (rows (valid_rows E df))"
    by (simp add: valid_rows_def rows_set_scalar)
qed

lemma clean_dataset_clock:
  assumes "parse_ts E' = parse_ts E"
  shows "clean_dataset E' df = clean_dataset E df"
proof -
  have "parse_timestamps E' d = parse_timestamps E d" for d
    by (simp add: parse_timestamps_def to_datetime_def assms)
  then show ?thesis
    by (simp add: clean_dataset_def Let_def valid_rows_clock[of E' _ E] split: sum.splits)
qed

subsection \<open>The valid rows\<close>

lemma dropna_id_timestamp:
  assumes "dropna [''id'', ''timestamp''] df = Inr df1"
  shows "columns df1 = columns df"
    and "rows df1 = filter (\<lambda>r. \<not> isna (r ''id'') \<and> \<not> isna (r ''timestamp'')) (rows df)"
    and "''id'' \<in> set (columns df)" and "''timestamp'' \<in> set (columns df)"
  using assms by (auto simp: dropna_def split: if_splits)

lemma dropna_raises:
  "(\<exists>e. dropna [''id'', ''timestamp''] df = Inl e) =
   (\<not> (''id'' \<in> set (columns df) \<and> ''timestamp'' \<in> set (columns df)))"
  by (auto simp: dropna_def)

lemma rows_parse_timestamps:
  "rows (parse_timestamps E df) =
     map (\<lambda>(r, t). r(''timestamp'' := t))
       (zip (rows df) (to_datetime E (map (\<lambda>r. r ''timestamp'') (rows df))))"
  by (simp add: parse_timestamps_def set_column_def)


lemma length_rows_parse_timestamps: "length (rows (parse_timestamps E df)) = length (rows df)"
  by (simp add: rows_parse_timestamps to_datetime_def)


lemma rows_valid_rows:
  "rows (valid_rows E df) =
     map (\<lambda>r. r(''processed_date'' := Str (today E)))
       (filter (\<lambda>r. \<not> isna (r ''timestamp'')) (rows df))"
  by (simp add: valid_rows_def rows_set_scalar)


lemma valid_rows_count:
  assumes "dropna [''id'', ''timestamp''] df = Inr df1"
  shows "length (rows (valid_rows E (parse_timestamps E df1))) \<le> length (rows df)"
proof -
  have "length (rows (valid_rows E (parse_timestamps E df1))) \<le> length (rows (parse_timestamps E df1))"
    by (simp add: rows_valid_rows)
  also have "\<dots> = length (rows df1)"
    by (rule length_rows_parse_timestamps)
  also have "\<dots> \<le> length (rows df)"
    by (simp add: dropna_id_timestamp(2)[OF assms])
  finally show ?thesis .
qed

subsection \<open>The daily aggregation\<close>















lemma daily_keys:
  "map (\<lambda>r. r ''timestamp'')
     (map (\<lambda>(k, grp). (agg_row daily_spec grp)(''timestamp'' := Day k)) (groupby key rs)) =
   map Day (map fst (groupby key rs))"
  by (auto intro!: nth_equalityI split: prod.splits)










end
